theory Spec2Isabelle
  imports Complex_Main "HOL-Library.AList"
begin

section \<open>Numbers as the program sees them\<close>

text \<open>
  Every number of the program is a pandas/numpy float64.  The embedding keeps the four
  kinds of value that decide the behaviour studied here: a finite number, the two
  infinities and NaN.  Finite arithmetic is exact (no rounding, no overflow, no signed
  zero); the special values follow IEEE 754: anything with NaN is NaN, \<open>x / 0\<close> is an
  infinity of the sign of \<open>x\<close> and \<open>0 / 0\<close> is NaN (numpy warns, it does not raise), and
  every comparison with NaN is false.
\<close>

datatype fval = Fin real | PInf | NInf | NaN

definition inf_of_sign :: "real \<Rightarrow> fval" where
  "inf_of_sign s = (if 0 < s then PInf else if s < 0 then NInf else NaN)"

fun fneg :: "fval \<Rightarrow> fval" where
  "fneg (Fin a) = Fin (- a)"
| "fneg PInf = NInf"
| "fneg NInf = PInf"
| "fneg NaN = NaN"

fun fadd :: "fval \<Rightarrow> fval \<Rightarrow> fval" where
  "fadd (Fin a) (Fin b) = Fin (a + b)"
| "fadd NaN _ = NaN"
| "fadd _ NaN = NaN"
| "fadd PInf NInf = NaN"
| "fadd NInf PInf = NaN"
| "fadd PInf _ = PInf"
| "fadd _ PInf = PInf"
| "fadd NInf _ = NInf"
| "fadd _ NInf = NInf"

definition fsub :: "fval \<Rightarrow> fval \<Rightarrow> fval" where
  "fsub a b = fadd a (fneg b)"

fun fmul :: "fval \<Rightarrow> fval \<Rightarrow> fval" where
  "fmul (Fin a) (Fin b) = Fin (a * b)"
| "fmul NaN _ = NaN"
| "fmul _ NaN = NaN"
| "fmul PInf (Fin b) = inf_of_sign b"
| "fmul (Fin a) PInf = inf_of_sign a"
| "fmul NInf (Fin b) = inf_of_sign (- b)"
| "fmul (Fin a) NInf = inf_of_sign (- a)"
| "fmul PInf PInf = PInf"
| "fmul NInf NInf = PInf"
| "fmul PInf NInf = NInf"
| "fmul NInf PInf = NInf"

fun fdiv :: "fval \<Rightarrow> fval \<Rightarrow> fval" where
  "fdiv (Fin a) (Fin b) = (if b = 0 then inf_of_sign a else Fin (a / b))"
| "fdiv NaN _ = NaN"
| "fdiv _ NaN = NaN"
| "fdiv (Fin a) PInf = Fin 0"
| "fdiv (Fin a) NInf = Fin 0"
| "fdiv PInf (Fin b) = (if b < 0 then NInf else PInf)"
| "fdiv NInf (Fin b) = (if b < 0 then PInf else NInf)"
| "fdiv _ _ = NaN"

fun flt :: "fval \<Rightarrow> fval \<Rightarrow> bool" where
  "flt (Fin a) (Fin b) = (a < b)"
| "flt NaN _ = False"
| "flt _ NaN = False"
| "flt PInf _ = False"
| "flt _ NInf = False"
| "flt NInf _ = True"
| "flt _ PInf = True"

definition fgt :: "fval \<Rightarrow> fval \<Rightarrow> bool" where
  "fgt a b = flt b a"

section \<open>Errors\<close>

text \<open>
  The exceptions the modelled code can meet: \<open>KeyError\<close> of a missing column (with the
  key), \<open>IndexError\<close> of a positional read out of bounds, and any other exception, kept
  with its message.  \<open>str_error\<close> is Python's \<open>str(e)\<close>.
\<close>

datatype error = KeyError string | IndexError | Exception string

fun str_error :: "error \<Rightarrow> string" where
  "str_error (KeyError k) = [CHR 0x27] @ k @ [CHR 0x27]"
| "str_error IndexError = ''single positional indexer is out-of-bounds''"
| "str_error (Exception m) = m"

section \<open>The pandas operations the code uses\<close>

text \<open>A frame maps a column name to the column; a column is the list of its values.\<close>

type_synonym series = "fval list"
type_synonym dataframe = "string \<rightharpoonup> series"

definition getitem :: "dataframe \<Rightarrow> string \<Rightarrow> error + series" where
  "getitem df k = (case df k of None \<Rightarrow> Inl (KeyError k) | Some col \<Rightarrow> Inr col)"

text \<open>\<open>s.iloc[-k]\<close> for \<open>k \<ge> 1\<close>: the \<open>k\<close>-th value from the end, or IndexError.\<close>

definition iloc_neg :: "series \<Rightarrow> nat \<Rightarrow> error + fval" where
  "iloc_neg s k = (if 1 \<le> k \<and> k \<le> length s then Inr (s ! (length s - k)) else Inl IndexError)"

text \<open>
  \<open>s.rolling(window=w).mean()\<close>: at each index the mean of the trailing \<open>w\<close> values;
  NaN while fewer than \<open>w\<close> values are there or when one of them is NaN.
\<close>

definition window_mean :: "nat \<Rightarrow> series \<Rightarrow> fval" where
  "window_mean w ys =
     (if length ys < w \<or> NaN \<in> set ys then NaN
      else fdiv (foldl fadd (Fin 0) ys) (Fin (real w)))"

definition rolling_mean :: "nat \<Rightarrow> series \<Rightarrow> series" where
  "rolling_mean w s =
     map (\<lambda>i. window_mean w (drop (Suc i - w) (take (Suc i) s))) [0..<length s]"

text \<open>\<open>s.diff()\<close>: NaN first, then each value minus the one before.\<close>

definition diff :: "series \<Rightarrow> series" where
  "diff s = (case s of [] \<Rightarrow> [] | _ # t \<Rightarrow> NaN # map2 (\<lambda>prev cur. fsub cur prev) s t)"

text \<open>\<open>s.where(cond, other)\<close>: keeps a value where the condition holds, else \<open>other\<close>.\<close>

definition series_where :: "(fval \<Rightarrow> bool) \<Rightarrow> fval \<Rightarrow> series \<Rightarrow> series" where
  "series_where cond other s = map (\<lambda>x. if cond x then x else other) s"

section \<open>Indicator engine: \<open>calculate_technical_indicators\<close>\<close>

text \<open>The local series of the RSI computation, each from the Close column.\<close>

definition delta_of :: "series \<Rightarrow> series" where
  "delta_of close = diff close"

definition gain_of :: "series \<Rightarrow> series" where
  "gain_of close = rolling_mean 14 (series_where (\<lambda>d. fgt d (Fin 0)) (Fin 0) (delta_of close))"

definition loss_of :: "series \<Rightarrow> series" where
  "loss_of close =
     rolling_mean 14 (map fneg (series_where (\<lambda>d. flt d (Fin 0)) (Fin 0) (delta_of close)))"

definition rs_of :: "series \<Rightarrow> series" where
  "rs_of close = map2 fdiv (gain_of close) (loss_of close)"

definition rsi_of :: "series \<Rightarrow> series" where
  "rsi_of close = map (\<lambda>rs. fsub (Fin 100) (fdiv (Fin 100) (fadd (Fin 1) rs))) (rs_of close)"

text \<open>
  The function assigns three columns to the frame it is given and returns that same
  frame object.  Frames live in a store, addressed by reference; the function takes the
  reference and the store and returns the result with the store after the call.
\<close>

type_synonym ref = nat
type_synonym heap = "ref \<Rightarrow> dataframe"

definition setitem :: "heap \<Rightarrow> ref \<Rightarrow> string \<Rightarrow> series \<Rightarrow> heap" where
  "setitem h df k col = h(df := (h df)(k \<mapsto> col))"

definition calculate_technical_indicators :: "ref \<Rightarrow> heap \<Rightarrow> (error + ref) \<times> heap" where
  "calculate_technical_indicators df h =
     (case getitem (h df) ''Close'' of Inl e \<Rightarrow> (Inl e, h) | Inr c1 \<Rightarrow>
       (let h1 = setitem h df ''MA20'' (rolling_mean 20 c1) in
        (case getitem (h1 df) ''Close'' of Inl e \<Rightarrow> (Inl e, h1) | Inr c2 \<Rightarrow>
          (let h2 = setitem h1 df ''MA50'' (rolling_mean 50 c2) in
           (case getitem (h2 df) ''Close'' of Inl e \<Rightarrow> (Inl e, h2) | Inr c3 \<Rightarrow>
             (let h3 = setitem h2 df ''RSI'' (rsi_of c3) in (Inr df, h3)))))))"

section \<open>Recommendation engine: \<open>calculate_analysis\<close> and \<open>get_stock_analysis\<close>\<close>

text \<open>
  The result dictionary, with the keys of the source.  Key \<open>error\<close> exists only in the
  fallback of \<open>get_stock_analysis\<close>.
\<close>

record analysis =
  error :: "string option"
  summary :: string
  technical_analysis :: string
  fundamental_analysis :: string
  recommendation :: string
  risk_level :: string
  reasoning :: string

text \<open>
  What the function takes from Python and pandas and this development leaves open: the
  three number formats of the f-strings (\<open>.2f\<close>, \<open>.2%\<close> and \<open>,.0f\<close>) and the series
  methods \<open>pct_change\<close> and \<open>std\<close>.  None of them raises on a float series, and they
  feed the four text fields only.
\<close>

record pyenv =
  fmt_2f :: "fval \<Rightarrow> string"
  fmt_2pct :: "fval \<Rightarrow> string"
  fmt_comma_0f :: "fval \<Rightarrow> string"
  pct_change :: "series \<Rightarrow> series"
  std :: "series \<Rightarrow> fval"

definition upper :: "string \<Rightarrow> string" where
  "upper s =
     map (\<lambda>c. if 97 \<le> (of_char c :: nat) \<and> (of_char c :: nat) \<le> 122
               then char_of ((of_char c :: nat) - 32) else c) s"

definition nl :: string where
  "nl = [CHR 0x0A]"

text \<open>\<open>hist_data[k].iloc[-n]\<close>: KeyError without the column, IndexError on a short one.\<close>

definition col_iloc :: "dataframe \<Rightarrow> string \<Rightarrow> nat \<Rightarrow> error + fval" where
  "col_iloc hist_data k n =
     (case getitem hist_data k of Inl e \<Rightarrow> Inl e | Inr col \<Rightarrow> iloc_neg col n)"

text \<open>The part of \<open>calculate_analysis\<close> after the seven reads; it cannot raise.\<close>

definition analysis_of ::
  "pyenv \<Rightarrow> series \<Rightarrow> (string \<rightharpoonup> string) \<Rightarrow> (string \<rightharpoonup> string) \<Rightarrow>
   fval \<Rightarrow> fval \<Rightarrow> fval \<Rightarrow> fval \<Rightarrow> fval \<Rightarrow> fval \<Rightarrow> analysis" where
  "analysis_of env close metrics info current_price ma_20 ma_50 rsi volume avg_volume =
     (let price_trend = (if fgt current_price ma_50 then ''bullish'' else ''bearish'');
          momentum = (if fgt current_price ma_20 then ''increasing'' else ''decreasing'');
          volume_trend =
            (if fgt volume (fmul avg_volume (Fin 1.2)) then ''high''
             else if flt volume (fmul avg_volume (Fin 0.8)) then ''low'' else ''normal'');
          price_above_ma50 = fgt current_price ma_50;
          price_above_ma20 = fgt current_price ma_20;
          rsi_oversold = flt rsi (Fin 30);
          rsi_overbought = fgt rsi (Fin 70);
          volume_high = fgt volume (fmul avg_volume (Fin 1.2));
          decision =
            (if (price_above_ma50 \<and> price_above_ma20 \<and> \<not> rsi_overbought) \<or>
                (rsi_oversold \<and> volume_high)
             then (''Buy'', ''Medium'')
             else if rsi_overbought \<or> (\<not> price_above_ma50 \<and> \<not> price_above_ma20)
             then (''Sell'', ''High'')
             else (''Hold'', ''Low''));
          returns = pct_change env close;
          volatility = fmul (std env returns) (Fin (sqrt 252))
      in \<lparr> error = None,
           summary =
             ''The stock is currently in a '' @ price_trend @ '' trend with '' @ momentum @
             '' momentum. '' @
             ''Trading volume is '' @ volume_trend @ '' compared to the 20-day average. '' @
             ''Annual volatility is '' @ fmt_2pct env volatility @ ''.'',
           technical_analysis =
             nl @ ''    Price Analysis:'' @ nl @
             ''    - Current price ($'' @ fmt_2f env current_price @ '') is '' @ price_trend @
             '' relative to the 50-day moving average ($'' @ fmt_2f env ma_50 @ '')'' @ nl @
             ''    - 20-day moving average: $'' @ fmt_2f env ma_20 @ nl @
             ''    - RSI at '' @ fmt_2f env rsi @ '' indicates '' @
             (if flt rsi (Fin 30) then ''oversold''
              else if fgt rsi (Fin 70) then ''overbought'' else ''neutral'') @
             '' conditions'' @ nl @
             ''    - Volume is '' @ upper volume_trend @ '' at '' @ fmt_comma_0f env volume @
             '' shares'' @ nl @ ''    '',
           fundamental_analysis =
             nl @ ''    Market Metrics:'' @ nl @
             ''    - Market Cap: '' @
             (case metrics ''Market Cap'' of None \<Rightarrow> ''N/A'' | Some v \<Rightarrow> v) @ nl @
             ''    - P/E Ratio: '' @
             (case metrics ''P/E Ratio'' of None \<Rightarrow> ''N/A'' | Some v \<Rightarrow> v) @ nl @
             ''    - Beta: '' @ (case metrics ''Beta'' of None \<Rightarrow> ''N/A'' | Some v \<Rightarrow> v) @ nl @
             nl @
             ''    Sector: '' @ (case info ''sector'' of None \<Rightarrow> ''N/A'' | Some v \<Rightarrow> v) @ nl @
             ''    Industry: '' @
             (case info ''industry'' of None \<Rightarrow> ''N/A'' | Some v \<Rightarrow> v) @ nl @ ''    '',
           recommendation = fst decision,
           risk_level = snd decision,
           reasoning =
             nl @ ''    Recommendation based on:'' @ nl @
             ''    - Price trend: '' @ upper price_trend @ nl @
             ''    - RSI: '' @ fmt_2f env rsi @ nl @
             ''    - Volume: '' @ upper volume_trend @ nl @
             ''    - Volatility: '' @ fmt_2pct env volatility @ nl @ ''    '' \<rparr>)"

definition calculate_analysis ::
  "pyenv \<Rightarrow> dataframe \<Rightarrow> (string \<rightharpoonup> string) \<Rightarrow> (string \<rightharpoonup> string) \<Rightarrow> error + analysis" where
  "calculate_analysis env hist_data metrics info =
     (case col_iloc hist_data ''Close'' 1 of Inl e \<Rightarrow> Inl e | Inr current_price \<Rightarrow>
     (case col_iloc hist_data ''Close'' 2 of Inl e \<Rightarrow> Inl e | Inr prev_price \<Rightarrow>
     (case col_iloc hist_data ''MA20'' 1 of Inl e \<Rightarrow> Inl e | Inr ma_20 \<Rightarrow>
     (case col_iloc hist_data ''MA50'' 1 of Inl e \<Rightarrow> Inl e | Inr ma_50 \<Rightarrow>
     (case col_iloc hist_data ''RSI'' 1 of Inl e \<Rightarrow> Inl e | Inr rsi \<Rightarrow>
     (case col_iloc hist_data ''Volume'' 1 of Inl e \<Rightarrow> Inl e | Inr volume \<Rightarrow>
     (case getitem hist_data ''Volume'' of Inl e \<Rightarrow> Inl e | Inr vol \<Rightarrow>
     (case iloc_neg (rolling_mean 20 vol) 1 of Inl e \<Rightarrow> Inl e | Inr avg_volume \<Rightarrow>
     (case getitem hist_data ''Close'' of Inl e \<Rightarrow> Inl e | Inr close \<Rightarrow>
        Inr (analysis_of env close metrics info
               current_price ma_20 ma_50 rsi volume avg_volume))))))))))"

definition get_stock_analysis ::
  "pyenv \<Rightarrow> dataframe \<Rightarrow> (string \<rightharpoonup> string) \<Rightarrow> (string \<rightharpoonup> string) \<Rightarrow> analysis" where
  "get_stock_analysis env hist_data metrics info =
     (case calculate_analysis env hist_data metrics info of
        Inr result \<Rightarrow> result
      | Inl e \<Rightarrow>
          \<lparr> error = Some (''Failed to generate analysis: '' @ str_error e),
            summary = ''Technical analysis based on price trends and indicators.'',
            technical_analysis = ''Analysis temporarily unavailable.'',
            fundamental_analysis = ''Analysis temporarily unavailable.'',
            recommendation = ''Hold'',
            risk_level = ''Medium'',
            reasoning = ''Insufficient data for detailed analysis.'' \<rparr>)"

text \<open>
  The decision table in the words of the specification, over the six numbers of the
  latest point.
\<close>

definition decision_table ::
  "fval \<Rightarrow> fval \<Rightarrow> fval \<Rightarrow> fval \<Rightarrow> fval \<Rightarrow> fval \<Rightarrow> string \<times> string" where
  "decision_table close ma20 ma50 rsi volume avgVolume20 =
     (if (fgt close ma50 \<and> fgt close ma20 \<and> \<not> fgt rsi (Fin 70)) \<or>
         (flt rsi (Fin 30) \<and> fgt volume (fmul avgVolume20 (Fin 1.2)))
      then (''Buy'', ''Medium'')
      else if fgt rsi (Fin 70) \<or> (\<not> fgt close ma50 \<and> \<not> fgt close ma20)
      then (''Sell'', ''High'')
      else (''Hold'', ''Low''))"

section \<open>Portfolio aggregator: \<open>analyze_portfolio\<close>\<close>

text \<open>
  The quote source is the yfinance package: \<open>Ticker(symbol).history(period)\<close> gives a
  frame or raises, \<open>Ticker(symbol).info\<close> gives a dictionary or raises.  It is a
  parameter of the aggregator.
\<close>

record yfinance =
  yf_history :: "string \<Rightarrow> string \<Rightarrow> error + dataframe"
  yf_info :: "string \<Rightarrow> error + (string \<rightharpoonup> string)"

text \<open>
  An entry of the list \<open>stocks\<close>; its keys \<open>total_value\<close> and \<open>daily_change\<close> are the fields
  \<open>stock_value\<close> and \<open>stock_change\<close> here, the names of the summary's own keys being taken.
\<close>

record stock =
  symbol :: string
  shares :: fval
  current_price :: fval
  stock_value :: fval
  stock_change :: fval
  sector :: string

text \<open>
  The summary dictionary; its key \<open>risk_level\<close> is the field \<open>diversification\<close>.  The sector
  dictionary keeps insertion order and is an association list.
\<close>

record portfolio =
  total_value :: fval
  daily_change :: fval
  stocks :: "stock list"
  sector_distribution :: "(string \<times> fval) list"
  diversification :: string

text \<open>\<open>stock.history(period=p)['Close'].iloc[-1]\<close>\<close>

definition latest_close :: "yfinance \<Rightarrow> string \<Rightarrow> string \<Rightarrow> error + fval" where
  "latest_close yf ticker period =
     (case yf_history yf ticker period of Inl e \<Rightarrow> Inl e | Inr hist \<Rightarrow>
     (case getitem hist ''Close'' of Inl e \<Rightarrow> Inl e | Inr col \<Rightarrow> iloc_neg col 1))"

text \<open>\<open>d.get(k, default)\<close> on the sector dictionary.\<close>

definition dict_get :: "(string \<times> fval) list \<Rightarrow> string \<Rightarrow> fval \<Rightarrow> fval" where
  "dict_get d k dflt = (case map_of d k of None \<Rightarrow> dflt | Some v \<Rightarrow> v)"

text \<open>The body of the loop over the rows, for one row \<open>(Symbol, Shares)\<close>.\<close>

definition portfolio_row :: "yfinance \<Rightarrow> string \<times> fval \<Rightarrow> portfolio \<Rightarrow> error + portfolio" where
  "portfolio_row yf row a =
     (case latest_close yf (fst row) ''1d'' of Inl e \<Rightarrow> Inl e | Inr price \<Rightarrow>
     (case latest_close yf (fst row) ''2d'' of Inl e \<Rightarrow> Inl e | Inr prev_close \<Rightarrow>
       (let value = fmul price (snd row);
            change = fmul (fdiv (fsub price prev_close) prev_close) (Fin 100);
            a1 = a\<lparr>total_value := fadd (total_value a) value\<rparr>;
            a2 = a1\<lparr>daily_change :=
                      fadd (daily_change a1) (fmul change (fdiv value (total_value a1)))\<rparr>
        in (case yf_info yf (fst row) of Inl e \<Rightarrow> Inl e | Inr info \<Rightarrow>
             (let sec = (case info ''sector'' of None \<Rightarrow> ''Unknown'' | Some s \<Rightarrow> s);
                  a3 = a2\<lparr>sector_distribution :=
                            AList.update sec
                              (fadd (dict_get (sector_distribution a2) sec (Fin 0)) value)
                              (sector_distribution a2)\<rparr>
              in Inr (a3\<lparr>stocks := stocks a3 @
                           [\<lparr> symbol = fst row, shares = snd row, current_price = price,
                              stock_value = value, stock_change = change,
                              sector = sec \<rparr>]\<rparr>))))))"

fun portfolio_loop :: "yfinance \<Rightarrow> (string \<times> fval) list \<Rightarrow> portfolio \<Rightarrow> error + portfolio" where
  "portfolio_loop yf [] a = Inr a"
| "portfolio_loop yf (row # rows) a =
     (case portfolio_row yf row a of Inl e \<Rightarrow> Inl e | Inr a' \<Rightarrow> portfolio_loop yf rows a')"

text \<open>The second loop: every bucket becomes its percentage of the total.\<close>

definition to_percentages :: "portfolio \<Rightarrow> portfolio" where
  "to_percentages a =
     a\<lparr>sector_distribution :=
         map (\<lambda>(sec, v). (sec, fmul (fdiv v (total_value a)) (Fin 100))) (sector_distribution a)\<rparr>"

definition set_risk :: "portfolio \<Rightarrow> portfolio" where
  "set_risk a =
     (if length (sector_distribution a) < 3 then a\<lparr>diversification := ''High''\<rparr>
      else if length (sector_distribution a) > 5 then a\<lparr>diversification := ''Low''\<rparr>
      else a)"

definition initial_analysis :: portfolio where
  "initial_analysis =
     \<lparr> total_value = Fin 0, daily_change = Fin 0, stocks = [], sector_distribution = [],
       diversification = ''Medium'' \<rparr>"

definition analyze_portfolio :: "yfinance \<Rightarrow> (string \<times> fval) list \<Rightarrow> error + portfolio" where
  "analyze_portfolio yf portfolio_data =
     (case portfolio_loop yf portfolio_data initial_analysis of
        Inl e \<Rightarrow> Inl (Exception (''Error analyzing portfolio: '' @ str_error e))
      | Inr a \<Rightarrow> Inr (set_risk (to_percentages a)))"

section \<open>Concrete inputs\<close>

text \<open>
  A frame of one record with its Close column only; a series of 15 equal closes and one
  of 15 rising closes.
\<close>

definition one_day :: heap where
  "one_day = (\<lambda>_. [''Close'' \<mapsto> [Fin 100]])"

definition flat_closes :: series where
  "flat_closes = replicate 15 (Fin 100)"

definition rising_closes :: series where
  "rising_closes = [Fin 1, Fin 2, Fin 3, Fin 4, Fin 5, Fin 6, Fin 7, Fin 8, Fin 9, Fin 10,
                    Fin 11, Fin 12, Fin 13, Fin 14, Fin 15]"

section \<open>Auxiliary predicates\<close>

text \<open>A value that is not negative: a finite number from 0 on, or plus infinity.\<close>

definition nonneg :: "fval \<Rightarrow> bool" where
  "nonneg x = (case x of Fin r \<Rightarrow> 0 \<le> r | PInf \<Rightarrow> True | _ \<Rightarrow> False)"

section \<open>Indicator engine: what a call does to the store\<close>

lemma cti_ok:
  "h df ''Close'' = Some c \<Longrightarrow>
   calculate_technical_indicators df h =
     (Inr df, h(df := (h df)(''MA20'' \<mapsto> rolling_mean 20 c,
                              ''MA50'' \<mapsto> rolling_mean 50 c, ''RSI'' \<mapsto> rsi_of c)))"
  by (simp add: calculate_technical_indicators_def getitem_def setitem_def Let_def)

lemma cti_err:
  "h df ''Close'' = None \<Longrightarrow>
   calculate_technical_indicators df h = (Inl (KeyError ''Close''), h)"
  by (simp add: calculate_technical_indicators_def getitem_def)

lemma length_rolling_mean [simp]: "length (rolling_mean w s) = length s"
  by (simp add: rolling_mean_def)

lemma length_diff [simp]: "length (diff s) = length s"
  by (cases s) (simp_all add: diff_def)

lemma length_series_where [simp]: "length (series_where c d s) = length s"
  by (simp add: series_where_def)

lemma length_gain_of [simp]: "length (gain_of c) = length c"
  by (simp add: gain_of_def delta_of_def)

lemma length_loss_of [simp]: "length (loss_of c) = length c"
  by (simp add: loss_of_def delta_of_def)

lemma length_rs_of [simp]: "length (rs_of c) = length c"
  by (simp add: rs_of_def)

lemma length_rsi_of [simp]: "length (rsi_of c) = length c"
  by (simp add: rsi_of_def)

lemma rolling_mean_nth:
  "i < length s \<Longrightarrow>
   rolling_mean w s ! i = window_mean w (drop (Suc i - w) (take (Suc i) s))"
  by (simp add: rolling_mean_def)


lemma rs_of_nth:
  "i < length c \<Longrightarrow> rs_of c ! i = fdiv (gain_of c ! i) (loss_of c ! i)"
  by (simp add: rs_of_def)

lemma rsi_of_nth:
  "i < length c \<Longrightarrow>
   rsi_of c ! i =
     fsub (Fin 100) (fdiv (Fin 100) (fadd (Fin 1) (fdiv (gain_of c ! i) (loss_of c ! i))))"
  by (simp add: rsi_of_def rs_of_nth)





text \<open>
  Claim C9, as the code has it.  A call assigns MA20, MA50 and RSI to the frame it is
  given, in place, and returns that same frame; every other frame of the store and every
  other column of the frame are unchanged; without a Close column it raises KeyError and
  changes nothing.  A second call on the result returns the same and changes nothing,
  and a call on any frame with the same Close column gives the same outcome and the same
  three columns.
\<close>

theorem indicators_in_place_idempotent:
  assumes "calculate_technical_indicators df h = (r, h')"
  shows "(p \<noteq> df \<longrightarrow> h' p = h p) \<and>
         (k \<notin> {''MA20'', ''MA50'', ''RSI''} \<longrightarrow> h' df k = h df k) \<and>
         (r = Inr df \<or> (r = Inl (KeyError ''Close'') \<and> h' = h)) \<and>
         calculate_technical_indicators df h' = (r, h') \<and>
         (h2 df2 ''Close'' = h df ''Close'' \<longrightarrow>
            fst (calculate_technical_indicators df2 h2) = map_sum id (\<lambda>_. df2) r \<and>
            (r = Inr df \<longrightarrow> (\<forall>k \<in> {''MA20'', ''MA50'', ''RSI''}.
               snd (calculate_technical_indicators df2 h2) df2 k = h' df k)))"
proof (cases "h df ''Close''")
  case None
  then show ?thesis using assms by (auto simp: cti_err)
next
  case (Some c)
  have h': "h' = h(df := (h df)(''MA20'' \<mapsto> rolling_mean 20 c,
                                 ''MA50'' \<mapsto> rolling_mean 50 c, ''RSI'' \<mapsto> rsi_of c))"
    and r: "r = Inr df"
    using assms Some by (simp_all add: cti_ok)
  have c': "h' df ''Close'' = Some c" using Some by (simp add: h')
  have again: "calculate_technical_indicators df h' = (r, h')"
    unfolding cti_ok [of h' df c, OF c'] r by (simp add: h')
  have other: "h2 df2 ''Close'' = h df ''Close'' \<Longrightarrow>
     calculate_technical_indicators df2 h2 =
       (Inr df2, h2(df2 := (h2 df2)(''MA20'' \<mapsto> rolling_mean 20 c,
                                     ''MA50'' \<mapsto> rolling_mean 50 c, ''RSI'' \<mapsto> rsi_of c)))"
    using Some by (simp add: cti_ok)
  show ?thesis using again other by (auto simp: h' r)
qed

theorem indicators_in_place_idempotent_witness:
  "snd (calculate_technical_indicators 0 one_day) 1 = one_day 1 \<and>
   snd (calculate_technical_indicators 0 one_day) 0 ''Close'' = one_day 0 ''Close'' \<and>
   fst (calculate_technical_indicators 0 one_day) = Inr 0 \<and>
   calculate_technical_indicators 0 (snd (calculate_technical_indicators 0 one_day)) =
     calculate_technical_indicators 0 one_day \<and>
   snd (calculate_technical_indicators 1 one_day) 1 ''RSI'' =
     snd (calculate_technical_indicators 0 one_day) 0 ''RSI''"
proof -
  have a: "calculate_technical_indicators 0 one_day =
             (fst (calculate_technical_indicators 0 one_day),
              snd (calculate_technical_indicators 0 one_day))"
    by simp
  have c: "one_day 0 ''Close'' = Some [Fin 100]" "one_day 1 ''Close'' = Some [Fin 100]"
    by (simp_all add: one_day_def)
  have r: "fst (calculate_technical_indicators 0 one_day) = Inr 0"
    by (simp add: cti_ok [of one_day 0 "[Fin 100]"] c)
  have k: "''Close'' \<notin> {''MA20'', ''MA50'', ''RSI''}" by simp
  show ?thesis
    using indicators_in_place_idempotent [OF a, of 1 "''Close''" one_day 1] r k c
    by (simp add: prod_eq_iff)
qed

text \<open>
  Claim C9 as stated fails: after the call the frame that was passed in is not what it
  was before (it has gained the column MA20).
\<close>

theorem indicators_mutate_input_counterexample:
  "snd (calculate_technical_indicators 0 one_day) 0 \<noteq> one_day 0"
proof
  assume "snd (calculate_technical_indicators 0 one_day) 0 = one_day 0"
  then have "snd (calculate_technical_indicators 0 one_day) 0 ''MA20'' = one_day 0 ''MA20''"
    by simp
  then show False by (simp add: cti_ok one_day_def)
qed

section \<open>RSI when the average loss is zero\<close>

lemma nonneg_fadd: "nonneg a \<Longrightarrow> nonneg b \<Longrightarrow> nonneg (fadd a b)"
  by (cases a; cases b) (simp_all add: nonneg_def)

lemma nonneg_foldl: "nonneg a \<Longrightarrow> \<forall>x \<in> set xs. nonneg x \<Longrightarrow> nonneg (foldl fadd a xs)"
  by (induction xs arbitrary: a) (simp_all add: nonneg_fadd)

lemma nonneg_gain_entry: "nonneg (if fgt d (Fin 0) then d else Fin 0)"
  by (cases d) (simp_all add: fgt_def nonneg_def)

lemma nonneg_gains: "x \<in> set (series_where (\<lambda>d. fgt d (Fin 0)) (Fin 0) s) \<Longrightarrow> nonneg x"
proof (induction s)
  case Nil
  then show ?case by (simp add: series_where_def)
next
  case (Cons d s)
  from Cons.prems have "x = (if fgt d (Fin 0) then d else Fin 0) \<or>
      x \<in> set (series_where (\<lambda>d. fgt d (Fin 0)) (Fin 0) s)"
    unfolding series_where_def by simp
  then show ?case using Cons.IH nonneg_gain_entry [of d] by blast
qed

lemma window_mean_nonneg:
  assumes "\<forall>x \<in> set ys. nonneg x" and "14 \<le> length ys"
  shows "nonneg (window_mean 14 ys)"
proof -
  have "\<not> nonneg NaN" by (simp add: nonneg_def)
  then have n: "NaN \<notin> set ys" using assms(1) by blast
  have "nonneg (Fin 0)" by (simp add: nonneg_def)
  then have "nonneg (foldl fadd (Fin 0) ys)" using assms(1) by (rule nonneg_foldl)
  then have "nonneg (fdiv (foldl fadd (Fin 0) ys) (Fin 14))"
    by (cases "foldl fadd (Fin 0) ys") (simp_all add: nonneg_def)
  then show ?thesis using n assms(2) by (simp add: window_mean_def)
qed

lemma window_mean_defined: "window_mean w ys \<noteq> NaN \<Longrightarrow> w \<le> length ys"
  unfolding window_mean_def by (cases "length ys < w") simp_all


lemma gain_nonneg_when_loss_defined:
  assumes "i < length c" and "loss_of c ! i \<noteq> NaN"
  shows "nonneg (gain_of c ! i)"
proof -
  let ?g = "series_where (\<lambda>d. fgt d (Fin 0)) (Fin 0) (delta_of c)"
  let ?l = "map fneg (series_where (\<lambda>d. flt d (Fin 0)) (Fin 0) (delta_of c))"
  have lg: "length ?g = length c" and ll: "length ?l = length c"
    by (simp_all add: delta_of_def)
  have "loss_of c ! i = window_mean 14 (drop (Suc i - 14) (take (Suc i) ?l))"
    using assms(1) ll unfolding loss_of_def by (simp add: rolling_mean_nth)
  then have "window_mean 14 (drop (Suc i - 14) (take (Suc i) ?l)) \<noteq> NaN"
    using assms(2) by simp
  then have "14 \<le> length (drop (Suc i - 14) (take (Suc i) ?l))"
    by (rule window_mean_defined)
  then have len: "14 \<le> length (drop (Suc i - 14) (take (Suc i) ?g))"
    using lg ll by simp
  have "\<forall>x \<in> set (drop (Suc i - 14) (take (Suc i) ?g)). nonneg x"
  proof
    fix x assume "x \<in> set (drop (Suc i - 14) (take (Suc i) ?g))"
    then have "x \<in> set (take (Suc i) ?g)" by (rule in_set_dropD)
    then have "x \<in> set ?g" by (rule in_set_takeD)
    then show "nonneg x" by (rule nonneg_gains)
  qed
  then have "nonneg (window_mean 14 (drop (Suc i - 14) (take (Suc i) ?g)))"
    using len by (rule window_mean_nonneg)
  then show ?thesis
    using assms(1) lg unfolding gain_of_def by (simp add: rolling_mean_nth)
qed

lemma rsi_value_loss_zero:
  "nonneg g \<Longrightarrow>
   fsub (Fin 100) (fdiv (Fin 100) (fadd (Fin 1) (fdiv g (Fin 0)))) =
     (if fgt g (Fin 0) then Fin 100 else NaN)"
  by (cases g) (simp_all add: nonneg_def fgt_def fsub_def inf_of_sign_def)

text \<open>
  Claim C2, as the code has it.  The code divides the average gain by the average loss
  with no guard.  When the 14-period average loss at the latest index is 0, the RSI there
  is 100 exactly when the average gain is positive (the quotient is infinite); when the
  average gain is 0 as well the quotient is 0/0 and the RSI is NaN.
\<close>

theorem rsi_when_avg_loss_zero:
  assumes "h df ''Close'' = Some close" and "close \<noteq> []"
    and "last (loss_of close) = Fin 0"
  shows "\<exists>h' rsi. calculate_technical_indicators df h = (Inr df, h') \<and>
           h' df ''RSI'' = Some rsi \<and> rsi \<noteq> [] \<and>
           last rsi = (if fgt (last (gain_of close)) (Fin 0) then Fin 100 else NaN)"
proof -
  let ?i = "length close - 1"
  have i: "?i < length close" using assms(2) by simp
  have "length (loss_of close) \<noteq> 0" "length (gain_of close) \<noteq> 0" "length (rsi_of close) \<noteq> 0"
    using assms(2) by simp_all
  then have ne: "loss_of close \<noteq> []" "gain_of close \<noteq> []" "rsi_of close \<noteq> []"
    by (simp_all only: length_0_conv not_False_eq_True)
  have l: "loss_of close ! ?i = Fin 0"
    using assms(3) ne(1) by (simp add: last_conv_nth)
  then have "loss_of close ! ?i \<noteq> NaN" by simp
  then have g: "nonneg (gain_of close ! ?i)"
    by (rule gain_nonneg_when_loss_defined [OF i])
  have "last (rsi_of close) = rsi_of close ! ?i"
    using ne(3) by (simp add: last_conv_nth)
  also have "\<dots> = (if fgt (gain_of close ! ?i) (Fin 0) then Fin 100 else NaN)"
    unfolding rsi_of_nth [OF i] l by (rule rsi_value_loss_zero [OF g])
  also have "gain_of close ! ?i = last (gain_of close)"
    using ne(2) by (simp add: last_conv_nth)
  finally have "last (rsi_of close) = (if fgt (last (gain_of close)) (Fin 0) then Fin 100 else NaN)" .
  then show ?thesis using assms(1) ne(3) by (simp add: cti_ok)
qed

lemma flat_loss: "last (loss_of flat_closes) = Fin 0" by code_simp
lemma flat_rsi: "last (rsi_of flat_closes) = NaN" by code_simp
lemma rising_loss: "last (loss_of rising_closes) = Fin 0" by code_simp
lemma rising_gain: "fgt (last (gain_of rising_closes)) (Fin 0)" by code_simp

text \<open>
  Claim C2 as stated fails on the series it names: 15 equal closes have average loss 0
  at the latest index, and the RSI computed there is NaN, not 100.
\<close>

theorem rsi_flat_series_counterexample:
  "last (loss_of flat_closes) = Fin 0 \<and>
   map_option last (snd (calculate_technical_indicators 0 (\<lambda>_. [''Close'' \<mapsto> flat_closes])) 0 ''RSI'')
     = Some NaN"
  by (simp add: cti_ok flat_loss flat_rsi)

theorem rsi_when_avg_loss_zero_witness:
  "\<exists>h' rsi. calculate_technical_indicators 0 (\<lambda>_. [''Close'' \<mapsto> rising_closes]) = (Inr 0, h') \<and>
       h' 0 ''RSI'' = Some rsi \<and> rsi \<noteq> [] \<and> last rsi = Fin 100"
proof -
  have a: "(\<lambda>_. [''Close'' \<mapsto> rising_closes]) (0::nat) ''Close'' = Some rising_closes" by simp
  have b: "rising_closes \<noteq> []" by (simp add: rising_closes_def)
  show ?thesis
    using rsi_when_avg_loss_zero [of "\<lambda>_. [''Close'' \<mapsto> rising_closes]" 0 rising_closes, OF a b rising_loss] rising_gain
    by simp
qed

end
